theory Spec2Isabelle
  imports Main
begin

section \<open>Strings and nullable values\<close>

text \<open>
  The dashboard's root page (\<^verbatim>\<open>src/ui/litellm-dashboard/src/app/page.tsx\<close>) is a React
  component. A JavaScript string is modelled as a HOL \<^typ>\<open>string\<close>; a character is read
  as a code point below 256. A value of type \<^verbatim>\<open>string | null\<close> (or one that may be
  \<^verbatim>\<open>undefined\<close>) is a \<^typ>\<open>string option\<close>, with \<^term>\<open>None\<close> for both \<^verbatim>\<open>null\<close> and
  \<^verbatim>\<open>undefined\<close>: the component only ever tests such values for truthiness.
\<close>

text \<open>Truthiness of a string: every string but the empty one.\<close>

definition truthy_str :: "string \<Rightarrow> bool" where
  "truthy_str s = (s \<noteq> [])"

text \<open>Truthiness of a nullable string: present and not empty.\<close>

definition truthy :: "string option \<Rightarrow> bool" where
  "truthy v = (case v of None \<Rightarrow> False | Some s \<Rightarrow> truthy_str s)"

text \<open>
  \<^verbatim>\<open>String.prototype.toLowerCase\<close> on code points below 256: the letters A to Z and the
  Latin-1 capitals (192 to 222 without the multiplication sign 215) move up by 32; every
  other character stays.
\<close>

definition toLowerCase_char :: "char \<Rightarrow> char" where
  "toLowerCase_char c =
     (let n = (of_char c :: nat)
      in if (65 \<le> n \<and> n \<le> 90) \<or> (192 \<le> n \<and> n \<le> 222 \<and> n \<noteq> 215)
         then char_of (n + 32) else c)"

definition toLowerCase :: "string \<Rightarrow> string" where
  "toLowerCase s = map toLowerCase_char s"

section \<open>Role labels\<close>

text \<open>
  \<^verbatim>\<open>formatUserRole\<close> (lines 45 to 73). The argument is \<^term>\<open>None\<close> when the caller passes
  \<^verbatim>\<open>undefined\<close>. The \<^verbatim>\<open>switch\<close> compares the lower-cased role with each case label in
  the order of the source; the two \<^verbatim>\<open>console.log\<close> calls have no effect on the result.
\<close>

definition formatUserRole :: "string option \<Rightarrow> string" where
  "formatUserRole userRole =
     (if \<not> truthy userRole then ''Undefined Role''
      else case userRole of
        None \<Rightarrow> ''Undefined Role''
      | Some r \<Rightarrow>
         (let l = toLowerCase r
          in if l = ''app_owner'' then ''App Owner''
             else if l = ''demo_app_owner'' then ''App Owner''
             else if l = ''app_admin'' then ''Admin''
             else if l = ''proxy_admin'' then ''Admin''
             else if l = ''proxy_admin_viewer'' then ''Admin Viewer''
             else if l = ''org_admin'' then ''Org Admin''
             else if l = ''internal_user'' then ''Internal User''
             else if l = ''internal_viewer'' then ''Internal Viewer''
             else if l = ''app_user'' then ''App User''
             else ''Unknown Role''))"

text \<open>The raw role names the specification lists as known.\<close>

definition known_roles :: "string list" where
  "known_roles =
     [''app_owner'', ''demo_app_owner'', ''app_admin'', ''proxy_admin'', ''proxy_admin_viewer'',
      ''org_admin'', ''internal_user'', ''internal_viewer'', ''app_user'']"

section \<open>The URL query\<close>

text \<open>
  The query of the page's URL, as \<^verbatim>\<open>useSearchParams\<close> and \<^verbatim>\<open>URLSearchParams\<close> present it:
  the list of its name-value pairs, in order, duplicates kept. Serialising such a list
  (\<^verbatim>\<open>toString\<close>) and parsing the result again gives the list back, so the URL is kept in
  this parsed form.
\<close>

type_synonym url_search_params = "(string \<times> string) list"

text \<open>\<^verbatim>\<open>URLSearchParams.get\<close>: the value of the first pair with that name, or \<^verbatim>\<open>null\<close>.\<close>

definition usp_get :: "string \<Rightarrow> url_search_params \<Rightarrow> string option" where
  "usp_get name ps = map_of ps name"

text \<open>
  \<^verbatim>\<open>URLSearchParams.set\<close>: the first pair with that name takes the value and the later
  pairs with that name are removed; without such a pair, a new one is appended.
\<close>

fun usp_set :: "string \<Rightarrow> string \<Rightarrow> url_search_params \<Rightarrow> url_search_params" where
  "usp_set name v [] = [(name, v)]"
| "usp_set name v (p # ps) =
     (if fst p = name then (name, v) # filter (\<lambda>q. fst q \<noteq> name) ps
      else p # usp_set name v ps)"

section \<open>The cookie\<close>

text \<open>\<^verbatim>\<open>String.prototype.startsWith\<close>.\<close>

definition startsWith :: "string \<Rightarrow> string \<Rightarrow> bool" where
  "startsWith s p = (take (length p) s = p)"

text \<open>
  \<^verbatim>\<open>String.prototype.split\<close> with a string separator. \<open>split_aux sep skip cur rest\<close> scans
  \<open>rest\<close> from the left: \<open>cur\<close> is the piece read so far (reversed) and \<open>skip\<close> counts
  the characters of a separator just matched that are still to be dropped.
\<close>

fun split_aux :: "string \<Rightarrow> nat \<Rightarrow> string \<Rightarrow> string \<Rightarrow> string list" where
  "split_aux sep skip cur [] = [rev cur]"
| "split_aux sep (Suc k) cur (c # cs) = split_aux sep k cur cs"
| "split_aux sep 0 cur (c # cs) =
     (if startsWith (c # cs) sep then rev cur # split_aux sep (length sep - 1) [] cs
      else split_aux sep 0 (c # cur) cs)"

definition split :: "string \<Rightarrow> string \<Rightarrow> string list" where
  "split s sep = (if sep = [] then map (\<lambda>c. [c]) s else split_aux sep 0 [] s)"

text \<open>Reading index \<open>i\<close> of an array: \<^verbatim>\<open>undefined\<close> out of range.\<close>

definition at_index :: "'a list \<Rightarrow> nat \<Rightarrow> 'a option" where
  "at_index xs i = (if i < length xs then Some (xs ! i) else None)"

text \<open>\<^verbatim>\<open>getCookie\<close> (lines 38 to 43), applied to the text of \<^verbatim>\<open>document.cookie\<close>.\<close>

definition getCookie :: "string \<Rightarrow> string \<Rightarrow> string option" where
  "getCookie name cookie =
     (case find (\<lambda>row. startsWith row (name @ ''='')) (split cookie ''; '') of
        None \<Rightarrow> None
      | Some cookieValue \<Rightarrow>
          if truthy_str cookieValue then at_index (split cookieValue ''='') 1 else None)"

section \<open>The page component's state\<close>

text \<open>
  The decoded token. \<^verbatim>\<open>jwtDecode\<close> returns an untyped dictionary; each field is read at
  the type of the state variable or parameter that receives it, and \<^term>\<open>None\<close> stands for
  a field that is missing or \<^verbatim>\<open>null\<close>.
\<close>

record payload =
  key :: "string option"
  disabled_non_admin_personal_key_creation :: "bool option"
  user_role :: "string option"
  user_email :: "string option"
  login_method :: "string option"
  premium_user :: "bool option"
  auth_header_name :: "string option"

text \<open>
  The state variables of \<^verbatim>\<open>CreateKeyPage\<close> that the component itself writes (the others
  are written by child components and fetch helpers only), the query of the URL, and the
  header name kept by the networking module (\<^verbatim>\<open>setGlobalLitellmHeaderName\<close>).
\<close>

record page_state =
  userRole :: string
  premiumUser :: bool
  disabledPersonalKeyCreation :: "bool option"
  userEmail :: "string option"
  showSSOBanner :: bool
  token :: "string option"
  page :: string
  accessToken :: "string option"
  searchParams :: url_search_params
  globalLitellmHeaderName :: string

text \<open>The initialiser of the page state (lines 106 to 108): \<^verbatim>\<open>get("page") || "api-keys"\<close>.\<close>

definition initial_page :: "url_search_params \<Rightarrow> string" where
  "initial_page q =
     (case usp_get ''page'' q of
        None \<Rightarrow> ''api-keys''
      | Some p \<Rightarrow> if truthy_str p then p else ''api-keys'')"

text \<open>
  The state at the first render, for a URL with query \<open>q\<close>. The header name starts at the
  networking module's own default \<open>hdr\<close>, which this file does not set.
\<close>

definition initial_state :: "url_search_params \<Rightarrow> string \<Rightarrow> page_state" where
  "initial_state q hdr =
     \<lparr> userRole = [], premiumUser = False, disabledPersonalKeyCreation = Some False,
       userEmail = None, showSSOBanner = True, token = None, page = initial_page q,
       accessToken = None, searchParams = q, globalLitellmHeaderName = hdr \<rparr>"

text \<open>\<^verbatim>\<open>userID\<close> and \<^verbatim>\<open>invitation_id\<close> (lines 102 and 103) are read from the query at each render.\<close>

definition userID :: "page_state \<Rightarrow> string option" where
  "userID s = usp_get ''userID'' (searchParams s)"

definition invitation_id :: "page_state \<Rightarrow> string option" where
  "invitation_id s = usp_get ''invitation_id'' (searchParams s)"

text \<open>
  \<^verbatim>\<open>updatePage\<close> (lines 111 to 120): a copy of the query with \<^verbatim>\<open>page\<close> set is pushed as the
  new URL, and the page state is set.
\<close>

definition updatePage :: "string \<Rightarrow> page_state \<Rightarrow> page_state" where
  "updatePage newPage s =
     s\<lparr> searchParams := usp_set ''page'' newPage (searchParams s), page := newPage \<rparr>"

section \<open>The effects\<close>

text \<open>The first effect (lines 124 to 127) stores the cookie named \<^verbatim>\<open>token\<close>.\<close>

definition cookie_effect :: "string \<Rightarrow> page_state \<Rightarrow> page_state" where
  "cookie_effect cookie s = s\<lparr> token := getCookie ''token'' cookie \<rparr>"

text \<open>
  \<^verbatim>\<open>jwtDecode\<close> belongs to a library. It is a parameter of the model: it throws
  (\<^term>\<open>Inl InvalidTokenError\<close>) on a malformed token, and otherwise returns the decoded
  value, \<^term>\<open>Inr None\<close> when that value is falsy.
\<close>

datatype error = InvalidTokenError

type_synonym jwt_decoder = "string \<Rightarrow> error + payload option"

text \<open>Lines 148 to 157: the role, and the redirect of the viewer-admin to the usage page.\<close>

definition apply_user_role :: "payload \<Rightarrow> page_state \<Rightarrow> page_state" where
  "apply_user_role decoded s =
     (if truthy (user_role decoded)
      then (let formattedUserRole = formatUserRole (user_role decoded);
                s1 = s\<lparr> userRole := formattedUserRole \<rparr>
            in if formattedUserRole = ''Admin Viewer'' then s1\<lparr> page := ''usage'' \<rparr> else s1)
      else s)"

text \<open>Lines 159 to 163.\<close>

definition apply_user_email :: "payload \<Rightarrow> page_state \<Rightarrow> page_state" where
  "apply_user_email decoded s =
     (if truthy (user_email decoded) then s\<lparr> userEmail := user_email decoded \<rparr> else s)"

text \<open>Lines 165 to 171.\<close>

definition apply_login_method :: "payload \<Rightarrow> page_state \<Rightarrow> page_state" where
  "apply_login_method decoded s =
     (if truthy (login_method decoded)
      then s\<lparr> showSSOBanner := (login_method decoded = Some ''username_password'') \<rparr>
      else s)"

text \<open>Lines 173 to 175.\<close>

definition apply_premium_user :: "payload \<Rightarrow> page_state \<Rightarrow> page_state" where
  "apply_premium_user decoded s =
     (if premium_user decoded = Some True then s\<lparr> premiumUser := True \<rparr> else s)"

text \<open>Lines 177 to 179.\<close>

definition apply_auth_header_name :: "payload \<Rightarrow> page_state \<Rightarrow> page_state" where
  "apply_auth_header_name decoded s =
     (case auth_header_name decoded of
        None \<Rightarrow> s
      | Some h \<Rightarrow> if truthy_str h then s\<lparr> globalLitellmHeaderName := h \<rparr> else s)"

text \<open>The body of \<^verbatim>\<open>if (decoded)\<close> (lines 135 to 180), in the order of the source.\<close>

definition apply_decoded :: "payload \<Rightarrow> page_state \<Rightarrow> page_state" where
  "apply_decoded decoded s =
     apply_auth_header_name decoded
       (apply_premium_user decoded
         (apply_login_method decoded
           (apply_user_email decoded
             (apply_user_role decoded
               (s\<lparr> accessToken := key decoded,
                   disabledPersonalKeyCreation :=
                     disabled_non_admin_personal_key_creation decoded \<rparr>)))))"

text \<open>
  The token-decoding effect (lines 129 to 181). It returns at once while the token is
  missing or empty; an error thrown by \<^verbatim>\<open>jwtDecode\<close> is not caught, and no state has been
  written by then.
\<close>

definition decode_effect :: "jwt_decoder \<Rightarrow> page_state \<Rightarrow> error + page_state" where
  "decode_effect jwtDecode s =
     (case token s of
        None \<Rightarrow> Inr s
      | Some t \<Rightarrow>
          if \<not> truthy_str t then Inr s
          else (case jwtDecode t of
                  Inl e \<Rightarrow> Inl e
                | Inr None \<Rightarrow> Inr s
                | Inr (Some decoded) \<Rightarrow> Inr (apply_decoded decoded s)))"

text \<open>
  The calls to the fetch helpers, with their arguments as the source passes them and in
  its order; the setter each call hands over, and the \<^verbatim>\<open>null\<close> passed to
  \<^verbatim>\<open>fetchTeams\<close>, are left out.
\<close>

datatype fetch =
  FetchUserModels "string option" string "string option"
| FetchTeams "string option" "string option" string
| FetchOrganizations "string option"

text \<open>The reference-data effect (lines 183 to 193): the calls it issues, in order.\<close>

definition reference_data_effect :: "page_state \<Rightarrow> fetch list" where
  "reference_data_effect s =
     (if truthy (accessToken s) \<and> truthy (userID s) \<and> truthy_str (userRole s)
      then [FetchUserModels (userID s) (userRole s) (accessToken s)] else []) @
     (if truthy (accessToken s) \<and> truthy (userID s) \<and> truthy_str (userRole s)
      then [FetchTeams (accessToken s) (userID s) (userRole s)] else []) @
     (if truthy (accessToken s)
      then [FetchOrganizations (accessToken s)] else [])"

section \<open>Rendering\<close>

text \<open>The feature panels of the routing chain, named after the components.\<close>

datatype panel =
  UserDashboard | ModelDashboard | ChatUI | ViewUserDashboard | Teams | Organizations
| AdminPanel | APIRef | Settings | BudgetPanel | GuardrailsPanel | GeneralSettings
| ModelHub | CacheDashboard | PassThroughSettings | SpendLogsTable | MCPToolsViewer
| TagManagement | NewUsagePage | Usage

text \<open>The routing chain (lines 233 to 381), one comparison after the other.\<close>

definition select_panel :: "string \<Rightarrow> panel" where
  "select_panel p =
     (if p = ''api-keys'' then UserDashboard
      else if p = ''models'' then ModelDashboard
      else if p = ''llm-playground'' then ChatUI
      else if p = ''users'' then ViewUserDashboard
      else if p = ''teams'' then Teams
      else if p = ''organizations'' then Organizations
      else if p = ''admin-panel'' then AdminPanel
      else if p = ''api_ref'' then APIRef
      else if p = ''settings'' then Settings
      else if p = ''budgets'' then BudgetPanel
      else if p = ''guardrails'' then GuardrailsPanel
      else if p = ''general-settings'' then GeneralSettings
      else if p = ''model-hub'' then ModelHub
      else if p = ''caching'' then CacheDashboard
      else if p = ''pass-through-settings'' then PassThroughSettings
      else if p = ''logs'' then SpendLogsTable
      else if p = ''mcp-tools'' then MCPToolsViewer
      else if p = ''tag-management'' then TagManagement
      else if p = ''new_usage'' then NewUsagePage
      else Usage)"

text \<open>
  What the component renders (lines 196 to 387): with an invitation id in the URL, the
  user dashboard alone; otherwise the navigation bar, the sidebar and the panel the
  routing chain selects.
\<close>

datatype view = InvitationView | DashboardView panel

definition render :: "page_state \<Rightarrow> view" where
  "render s =
     (if truthy (invitation_id s) then InvitationView else DashboardView (select_panel (page s)))"

text \<open>
  \<^verbatim>\<open>updatePage\<close> is handed to the sidebar alone, as its \<^verbatim>\<open>setPage\<close> property (line 227),
  and the sidebar is mounted only in the view without an invitation id. A call of the
  page-update function is therefore a step from a state that renders the sidebar.
\<close>

definition sidebar_setPage :: "string \<Rightarrow> page_state \<Rightarrow> page_state option" where
  "sidebar_setPage newPage s =
     (case render s of
        InvitationView \<Rightarrow> None
      | DashboardView p \<Rightarrow> Some (updatePage newPage s))"

text \<open>
  The page identifiers of the routing chain, each with its panel: the known set of the
  specification.
\<close>

definition page_table :: "(string \<times> panel) list" where
  "page_table =
     [(''api-keys'', UserDashboard), (''models'', ModelDashboard), (''llm-playground'', ChatUI),
      (''users'', ViewUserDashboard), (''teams'', Teams), (''organizations'', Organizations),
      (''admin-panel'', AdminPanel), (''api_ref'', APIRef), (''settings'', Settings),
      (''budgets'', BudgetPanel), (''guardrails'', GuardrailsPanel),
      (''general-settings'', GeneralSettings), (''model-hub'', ModelHub),
      (''caching'', CacheDashboard), (''pass-through-settings'', PassThroughSettings),
      (''logs'', SpendLogsTable), (''mcp-tools'', MCPToolsViewer),
      (''tag-management'', TagManagement), (''new_usage'', NewUsagePage)]"

text \<open>The panel with identifier \<open>x\<close>, or the usage panel when \<open>x\<close> is not a known identifier.\<close>

definition panel_for :: "string \<Rightarrow> panel" where
  "panel_for x = (case map_of page_table x of Some p \<Rightarrow> p | None \<Rightarrow> Usage)"

section \<open>Auxiliary facts\<close>

lemma toLowerCase_char_idem: "toLowerCase_char (toLowerCase_char c) = toLowerCase_char c"
  by (auto simp: toLowerCase_char_def Let_def)

lemma toLowerCase_idem: "toLowerCase (toLowerCase s) = toLowerCase s"
  by (simp add: toLowerCase_def toLowerCase_char_idem)

lemma toLowerCase_Nil_iff: "toLowerCase s = [] \<longleftrightarrow> s = []"
  by (simp add: toLowerCase_def)

text \<open>The equations that evaluate \<^const>\<open>toLowerCase\<close> on a string literal.\<close>

lemmas lower_eval = toLowerCase_def toLowerCase_char_def char_of_def bit_Suc_0_iff

lemma formatUserRole_viewer: "formatUserRole (Some ''proxy_admin_viewer'') = ''Admin Viewer''"
  by (simp add: formatUserRole_def truthy_def truthy_str_def lower_eval)

lemma map_of_filter_other:
  "name \<noteq> k \<Longrightarrow> map_of (filter (\<lambda>q. fst q \<noteq> k) ps) name = map_of ps name"
  by (induction ps) auto

lemma usp_get_set_other:
  "name \<noteq> k \<Longrightarrow> usp_get name (usp_set k v ps) = usp_get name ps"
  by (induction ps) (auto simp: usp_get_def map_of_filter_other)

lemma usp_get_set_same: "usp_get k (usp_set k v ps) = Some v"
  by (induction ps) (auto simp: usp_get_def)

lemma filter_usp_set:
  "filter (\<lambda>q. fst q \<noteq> k) (usp_set k v ps) = filter (\<lambda>q. fst q \<noteq> k) ps"
  by (induction ps) auto

lemma select_panel_table: "select_panel x = panel_for x"
  by (simp add: select_panel_def panel_for_def page_table_def)

text \<open>What the steps after the role leave alone.\<close>

lemma page_apply_rest:
  "page (apply_user_email d s) = page s"
  "page (apply_login_method d s) = page s"
  "page (apply_premium_user d s) = page s"
  "page (apply_auth_header_name d s) = page s"
  by (simp_all add: apply_user_email_def apply_login_method_def apply_premium_user_def
        apply_auth_header_name_def split: option.splits)

lemma searchParams_apply:
  "searchParams (apply_user_role d s) = searchParams s"
  "searchParams (apply_user_email d s) = searchParams s"
  "searchParams (apply_login_method d s) = searchParams s"
  "searchParams (apply_premium_user d s) = searchParams s"
  "searchParams (apply_auth_header_name d s) = searchParams s"
  by (simp_all add: apply_user_role_def apply_user_email_def apply_login_method_def
        apply_premium_user_def apply_auth_header_name_def Let_def split: option.splits)

lemma accessToken_apply:
  "accessToken (apply_user_role d s) = accessToken s"
  "accessToken (apply_user_email d s) = accessToken s"
  "accessToken (apply_login_method d s) = accessToken s"
  "accessToken (apply_premium_user d s) = accessToken s"
  "accessToken (apply_auth_header_name d s) = accessToken s"
  by (simp_all add: apply_user_role_def apply_user_email_def apply_login_method_def
        apply_premium_user_def apply_auth_header_name_def Let_def split: option.splits)

lemma searchParams_apply_decoded: "searchParams (apply_decoded d s) = searchParams s"
  by (simp add: apply_decoded_def searchParams_apply)

lemma accessToken_apply_decoded: "accessToken (apply_decoded d s) = key d"
  by (simp add: apply_decoded_def accessToken_apply)

lemma page_apply_decoded_viewer:
  "user_role d = Some ''proxy_admin_viewer'' \<Longrightarrow> page (apply_decoded d s) = ''usage''"
  by (simp add: apply_decoded_def page_apply_rest apply_user_role_def formatUserRole_viewer
        truthy_def truthy_str_def)

lemma token_cookie_example:
  "token (cookie_effect ''token=aaa.bbb.ccc'' s) = Some ''aaa.bbb.ccc''"
  by (simp add: cookie_effect_def getCookie_def split_def startsWith_def at_index_def
        truthy_str_def)

section \<open>Properties of the reference-data loader\<close>

text \<open>
  C1, as stated: while any of the access token, the user id and the role is missing or
  empty, no fetch is issued. This fails. With an access token, no \<^verbatim>\<open>userID\<close> in the URL
  and no role yet, the organizations are fetched: that call is guarded by the access
  token alone (line 190).
\<close>

theorem reference_data_needs_all_counterexample:
  "userID ((initial_state [] ''Authorization'')\<lparr>accessToken := Some ''sk-1234''\<rparr>) = None
   \<and> userRole ((initial_state [] ''Authorization'')\<lparr>accessToken := Some ''sk-1234''\<rparr>) = []
   \<and> reference_data_effect ((initial_state [] ''Authorization'')\<lparr>accessToken := Some ''sk-1234''\<rparr>)
       = [FetchOrganizations (Some ''sk-1234'')]"
  by (simp add: reference_data_effect_def initial_state_def userID_def usp_get_def truthy_def
        truthy_str_def)

text \<open>
  C1, amended: the fetches of the user's models and of the teams are each issued exactly
  when the access token, the user id and the role are all present and non-empty; the fetch
  of the organizations is issued exactly when the access token is present and non-empty,
  whatever the user id and the role are; without an access token no fetch is issued.
\<close>

theorem reference_data_guards:
  "((\<exists>u r a. FetchUserModels u r a \<in> set (reference_data_effect s)) \<longleftrightarrow>
      truthy (accessToken s) \<and> truthy (userID s) \<and> truthy_str (userRole s))
   \<and> ((\<exists>a u r. FetchTeams a u r \<in> set (reference_data_effect s)) \<longleftrightarrow>
      truthy (accessToken s) \<and> truthy (userID s) \<and> truthy_str (userRole s))
   \<and> ((\<exists>a. FetchOrganizations a \<in> set (reference_data_effect s)) \<longleftrightarrow> truthy (accessToken s))
   \<and> (\<not> truthy (accessToken s) \<longrightarrow> reference_data_effect s = [])"
  by (simp add: reference_data_effect_def)

theorem reference_data_guards_witness:
  "reference_data_effect
     ((initial_state [(''userID'', ''u1'')] ''Authorization'')
        \<lparr>accessToken := None, userRole := ''Admin''\<rparr>) = []
   \<and> (\<exists>u r a. FetchUserModels u r a \<in> set (reference_data_effect
     ((initial_state [(''userID'', ''u1'')] ''Authorization'')
        \<lparr>accessToken := Some ''sk-1234'', userRole := ''Admin''\<rparr>)))"
  using
    reference_data_guards [of "(initial_state [(''userID'', ''u1'')] ''Authorization'')
        \<lparr>accessToken := None, userRole := ''Admin''\<rparr>"]
    reference_data_guards [of "(initial_state [(''userID'', ''u1'')] ''Authorization'')
        \<lparr>accessToken := Some ''sk-1234'', userRole := ''Admin''\<rparr>"]
  by (simp add: initial_state_def userID_def usp_get_def truthy_def truthy_str_def)

section \<open>Properties of the token-decoding effect\<close>

text \<open>
  C2: for a token that decodes to a payload whose \<^verbatim>\<open>user_role\<close> is
  \<^verbatim>\<open>proxy_admin_viewer\<close>, the token-decoding effect completes and leaves the page state at
  \<^verbatim>\<open>usage\<close>, from every state: whatever the page state was, and whatever the query of the
  URL holds.
\<close>

theorem viewer_admin_redirect:
  assumes "token s = Some t" and "t \<noteq> []" and "jwtDecode t = Inr (Some decoded)"
    and "user_role decoded = Some ''proxy_admin_viewer''"
  shows "\<exists>s'. decode_effect jwtDecode s = Inr s' \<and> page s' = ''usage''"
  using assms by (simp add: decode_effect_def truthy_str_def page_apply_decoded_viewer)

theorem viewer_admin_redirect_witness:
  "\<exists>s'. decode_effect
          (\<lambda>t. Inr (Some \<lparr>key = Some ''sk-1234'', disabled_non_admin_personal_key_creation = None,
                           user_role = Some ''proxy_admin_viewer'', user_email = None,
                           login_method = Some ''sso'', premium_user = None,
                           auth_header_name = None\<rparr>))
          (cookie_effect ''token=aaa.bbb.ccc''
             (initial_state [(''page'', ''models'')] ''Authorization''))
        = Inr s' \<and> page s' = ''usage''"
proof -
  let ?d = "\<lparr>key = Some ''sk-1234'', disabled_non_admin_personal_key_creation = None,
             user_role = Some ''proxy_admin_viewer'', user_email = None,
             login_method = Some ''sso'', premium_user = None, auth_header_name = None\<rparr>"
  show ?thesis
    using viewer_admin_redirect [OF token_cookie_example,
        where jwtDecode = "\<lambda>t. Inr (Some ?d)" and decoded = ?d]
    by simp
qed

text \<open>
  C6: at the start the access token is \<^verbatim>\<open>null\<close>. After the cookie has been read and the
  token-decoding effect has run to its end, the access token is set if and only if the
  cookie held a non-empty token, \<^verbatim>\<open>jwtDecode\<close> returned a payload for it, and that payload
  carried a \<^verbatim>\<open>key\<close>. When \<^verbatim>\<open>jwtDecode\<close> throws instead, nothing has been written: the
  access token is still \<^verbatim>\<open>null\<close>, and the token did not decode.
\<close>

theorem accessToken_set_iff:
  assumes "accessToken s = None"
  shows "(decode_effect jwtDecode (cookie_effect cookie s) = Inr s' \<longrightarrow>
           (accessToken s' \<noteq> None \<longleftrightarrow>
              (\<exists>t decoded k. getCookie ''token'' cookie = Some t \<and> t \<noteq> []
                 \<and> jwtDecode t = Inr (Some decoded) \<and> key decoded = Some k)))
       \<and> (decode_effect jwtDecode (cookie_effect cookie s) = Inl e \<longrightarrow>
           accessToken (cookie_effect cookie s) = None
           \<and> \<not> (\<exists>t decoded k. getCookie ''token'' cookie = Some t \<and> t \<noteq> []
                 \<and> jwtDecode t = Inr (Some decoded) \<and> key decoded = Some k))"
  using assms
  by (auto simp: decode_effect_def cookie_effect_def truthy_str_def accessToken_apply_decoded
      split: option.splits sum.splits if_splits)

theorem accessToken_set_iff_witness:
  "(\<exists>s'. decode_effect
          (\<lambda>t. Inr (Some \<lparr>key = Some ''sk-1234'', disabled_non_admin_personal_key_creation = None,
                           user_role = Some ''proxy_admin'', user_email = None,
                           login_method = None, premium_user = None,
                           auth_header_name = None\<rparr>))
          (cookie_effect ''token=aaa.bbb.ccc'' (initial_state [] ''Authorization'')) = Inr s'
        \<and> accessToken s' \<noteq> None)
   \<and> (\<exists>s'. decode_effect
          (\<lambda>t. Inr (Some \<lparr>key = Some ''sk-1234'', disabled_non_admin_personal_key_creation = None,
                           user_role = Some ''proxy_admin'', user_email = None,
                           login_method = None, premium_user = None,
                           auth_header_name = None\<rparr>))
          (cookie_effect [] (initial_state [] ''Authorization'')) = Inr s'
        \<and> accessToken s' = None)"
proof -
  let ?d = "\<lparr>key = Some ''sk-1234'', disabled_non_admin_personal_key_creation = None,
             user_role = Some ''proxy_admin'', user_email = None,
             login_method = None, premium_user = None, auth_header_name = None\<rparr>"
  let ?s = "initial_state [] ''Authorization''"
  have a: "accessToken ?s = None"
    by (simp add: initial_state_def)
  have c: "getCookie ''token'' ''token=aaa.bbb.ccc'' = Some ''aaa.bbb.ccc''"
    by (simp add: getCookie_def split_def startsWith_def at_index_def truthy_str_def)
  have r: "decode_effect (\<lambda>t. Inr (Some ?d)) (cookie_effect ''token=aaa.bbb.ccc'' ?s)
      = Inr (apply_decoded ?d (cookie_effect ''token=aaa.bbb.ccc'' ?s))"
    by (simp add: decode_effect_def token_cookie_example truthy_str_def)
  have n: "getCookie ''token'' [] = None"
    by (simp add: getCookie_def split_def startsWith_def)
  have q: "decode_effect (\<lambda>t. Inr (Some ?d)) (cookie_effect [] ?s) = Inr (cookie_effect [] ?s)"
    by (simp add: decode_effect_def cookie_effect_def n)
  have present: "\<exists>s'. decode_effect (\<lambda>t. Inr (Some ?d)) (cookie_effect ''token=aaa.bbb.ccc'' ?s)
      = Inr s' \<and> accessToken s' \<noteq> None"
    using accessToken_set_iff [OF a, of "\<lambda>t. Inr (Some ?d)" "''token=aaa.bbb.ccc''"
        "apply_decoded ?d (cookie_effect ''token=aaa.bbb.ccc'' ?s)"] r c
    by simp
  have absent: "\<exists>s'. decode_effect (\<lambda>t. Inr (Some ?d)) (cookie_effect [] ?s) = Inr s'
      \<and> accessToken s' = None"
    using accessToken_set_iff [OF a, of "\<lambda>t. Inr (Some ?d)" "[]" "cookie_effect [] ?s"] q n
    by simp
  from present absent show ?thesis by blast
qed

text \<open>
  C9: the token-decoding effect never changes the URL. For the viewer-admin it sets the
  page state to \<^verbatim>\<open>usage\<close> and leaves the \<^verbatim>\<open>page\<close> parameter of the URL as it was, so the
  two may differ afterwards: they do when the URL asked for \<^verbatim>\<open>models\<close>.
\<close>

theorem viewer_redirect_keeps_url:
  "(decode_effect jwtDecode s = Inr s' \<longrightarrow> searchParams s' = searchParams s)
   \<and> (token s = Some t \<and> t \<noteq> [] \<and> jwtDecode t = Inr (Some decoded)
        \<and> user_role decoded = Some ''proxy_admin_viewer''
        \<and> decode_effect jwtDecode s = Inr s' \<longrightarrow>
          page s' = ''usage''
          \<and> usp_get ''page'' (searchParams s') = usp_get ''page'' (searchParams s))
   \<and> (\<exists>j s0 s1. decode_effect j s0 = Inr s1
          \<and> usp_get ''page'' (searchParams s1) = Some ''models'' \<and> page s1 = ''usage'')"
proof -
  have keep: "decode_effect jwtDecode s = Inr s' \<longrightarrow> searchParams s' = searchParams s"
    by (auto simp: decode_effect_def searchParams_apply_decoded
        split: option.splits sum.splits if_splits)
  have viewer: "token s = Some t \<and> t \<noteq> [] \<and> jwtDecode t = Inr (Some decoded)
        \<and> user_role decoded = Some ''proxy_admin_viewer''
        \<and> decode_effect jwtDecode s = Inr s' \<longrightarrow>
          page s' = ''usage''
          \<and> usp_get ''page'' (searchParams s') = usp_get ''page'' (searchParams s)"
    by (auto simp: decode_effect_def truthy_str_def searchParams_apply_decoded
        page_apply_decoded_viewer)
  let ?d = "\<lparr>key = Some ''sk-1234'', disabled_non_admin_personal_key_creation = None,
             user_role = Some ''proxy_admin_viewer'', user_email = None,
             login_method = None, premium_user = None, auth_header_name = None\<rparr>"
  let ?s0 = "cookie_effect ''token=aaa.bbb.ccc''
               (initial_state [(''page'', ''models'')] ''Authorization'')"
  have run: "decode_effect (\<lambda>t. Inr (Some ?d)) ?s0 = Inr (apply_decoded ?d ?s0)"
    by (simp add: decode_effect_def token_cookie_example truthy_str_def)
  have url: "usp_get ''page'' (searchParams (apply_decoded ?d ?s0)) = Some ''models''"
    by (simp add: searchParams_apply_decoded cookie_effect_def initial_state_def usp_get_def)
  have pg: "page (apply_decoded ?d ?s0) = ''usage''"
    by (simp add: page_apply_decoded_viewer)
  from run url pg have differ: "\<exists>j s0 s1. decode_effect j s0 = Inr s1
          \<and> usp_get ''page'' (searchParams s1) = Some ''models'' \<and> page s1 = ''usage''"
    by blast
  from keep viewer differ show ?thesis by blast
qed

theorem viewer_redirect_keeps_url_witness:
  "\<exists>s'. decode_effect
          (\<lambda>t. Inr (Some \<lparr>key = Some ''sk-1234'', disabled_non_admin_personal_key_creation = None,
                           user_role = Some ''proxy_admin_viewer'', user_email = None,
                           login_method = None, premium_user = None,
                           auth_header_name = None\<rparr>))
          (cookie_effect ''token=aaa.bbb.ccc''
             (initial_state [(''page'', ''models'')] ''Authorization'')) = Inr s'
        \<and> page s' = ''usage''
        \<and> usp_get ''page'' (searchParams s') = Some ''models''"
proof -
  let ?d = "\<lparr>key = Some ''sk-1234'', disabled_non_admin_personal_key_creation = None,
             user_role = Some ''proxy_admin_viewer'', user_email = None,
             login_method = None, premium_user = None, auth_header_name = None\<rparr>"
  let ?s0 = "cookie_effect ''token=aaa.bbb.ccc''
               (initial_state [(''page'', ''models'')] ''Authorization'')"
  have run: "decode_effect (\<lambda>t. Inr (Some ?d)) ?s0 = Inr (apply_decoded ?d ?s0)"
    by (simp add: decode_effect_def token_cookie_example truthy_str_def)
  have q: "usp_get ''page'' (searchParams ?s0) = Some ''models''"
    by (simp add: cookie_effect_def initial_state_def usp_get_def)
  show ?thesis
    using viewer_redirect_keeps_url [of "\<lambda>t. Inr (Some ?d)" ?s0 "apply_decoded ?d ?s0"
        "''aaa.bbb.ccc''" ?d] run q
      token_cookie_example [of "initial_state [(''page'', ''models'')] ''Authorization''"]
    by simp
qed

section \<open>Properties of the role labels\<close>

text \<open>
  C3, as stated: every non-empty string outside the known set of role names gets the label
  \<^verbatim>\<open>Unknown Role\<close>. This fails. The role is lower-cased before it is compared, so
  \<^verbatim>\<open>PROXY_ADMIN\<close>, which is not in the known set, gets the label \<^verbatim>\<open>Admin\<close>.
\<close>

theorem formatUserRole_unrecognized_counterexample:
  "''PROXY_ADMIN'' \<noteq> [] \<and> ''PROXY_ADMIN'' \<notin> set known_roles
   \<and> formatUserRole (Some ''PROXY_ADMIN'') = ''Admin''
   \<and> formatUserRole (Some ''PROXY_ADMIN'') \<noteq> ''Unknown Role''"
  by (simp add: known_roles_def formatUserRole_def truthy_def truthy_str_def lower_eval)

text \<open>
  C3, amended: each role name of the known set gets its fixed label; every non-empty
  string whose lower-case form is not in the known set gets \<^verbatim>\<open>Unknown Role\<close>; the empty
  string and \<^verbatim>\<open>undefined\<close> get \<^verbatim>\<open>Undefined Role\<close>.
\<close>

theorem formatUserRole_labels:
  "formatUserRole (Some ''app_owner'') = ''App Owner''
   \<and> formatUserRole (Some ''demo_app_owner'') = ''App Owner''
   \<and> formatUserRole (Some ''app_admin'') = ''Admin''
   \<and> formatUserRole (Some ''proxy_admin'') = ''Admin''
   \<and> formatUserRole (Some ''proxy_admin_viewer'') = ''Admin Viewer''
   \<and> formatUserRole (Some ''org_admin'') = ''Org Admin''
   \<and> formatUserRole (Some ''internal_user'') = ''Internal User''
   \<and> formatUserRole (Some ''internal_viewer'') = ''Internal Viewer''
   \<and> formatUserRole (Some ''app_user'') = ''App User''
   \<and> (s \<noteq> [] \<and> toLowerCase s \<notin> set known_roles \<longrightarrow>
        formatUserRole (Some s) = ''Unknown Role'')
   \<and> formatUserRole (Some []) = ''Undefined Role''
   \<and> formatUserRole None = ''Undefined Role''"
proof -
  have known: "formatUserRole (Some ''app_owner'') = ''App Owner''"
    "formatUserRole (Some ''demo_app_owner'') = ''App Owner''"
    "formatUserRole (Some ''app_admin'') = ''Admin''"
    "formatUserRole (Some ''proxy_admin'') = ''Admin''"
    "formatUserRole (Some ''proxy_admin_viewer'') = ''Admin Viewer''"
    "formatUserRole (Some ''org_admin'') = ''Org Admin''"
    "formatUserRole (Some ''internal_user'') = ''Internal User''"
    "formatUserRole (Some ''internal_viewer'') = ''Internal Viewer''"
    "formatUserRole (Some ''app_user'') = ''App User''"
    by (simp_all add: formatUserRole_def truthy_def truthy_str_def lower_eval)
  have unknown: "s \<noteq> [] \<and> toLowerCase s \<notin> set known_roles \<longrightarrow>
      formatUserRole (Some s) = ''Unknown Role''"
    by (simp add: formatUserRole_def truthy_def truthy_str_def known_roles_def Let_def)
  have undefined: "formatUserRole (Some []) = ''Undefined Role''"
    "formatUserRole None = ''Undefined Role''"
    by (simp_all add: formatUserRole_def truthy_def truthy_str_def)
  from known unknown undefined show ?thesis by blast
qed

theorem formatUserRole_labels_witness:
  "''superuser'' \<noteq> [] \<and> toLowerCase ''superuser'' \<notin> set known_roles
   \<and> formatUserRole (Some ''superuser'') = ''Unknown Role''"
  using formatUserRole_labels [of "''superuser''"]
  by (simp add: known_roles_def lower_eval)

text \<open>
  C10: \<^verbatim>\<open>formatUserRole\<close> does not depend on letter case: a non-empty string and its
  lower-case form get the same label, as \<^verbatim>\<open>PROXY_ADMIN\<close> and \<^verbatim>\<open>proxy_admin\<close> do.
\<close>

theorem formatUserRole_case_insensitive:
  "s \<noteq> [] \<Longrightarrow> formatUserRole (Some s) = formatUserRole (Some (toLowerCase s))"
  by (simp add: formatUserRole_def truthy_def truthy_str_def toLowerCase_idem
        toLowerCase_Nil_iff)

theorem formatUserRole_case_insensitive_witness:
  "''PROXY_ADMIN'' \<noteq> [] \<and> toLowerCase ''PROXY_ADMIN'' = ''proxy_admin''
   \<and> formatUserRole (Some ''PROXY_ADMIN'') = formatUserRole (Some ''proxy_admin'')
   \<and> formatUserRole (Some ''proxy_admin'') = ''Admin''"
proof -
  have low: "toLowerCase ''PROXY_ADMIN'' = ''proxy_admin''"
    by (simp add: lower_eval)
  have adm: "formatUserRole (Some ''proxy_admin'') = ''Admin''"
    by (simp add: formatUserRole_def truthy_def truthy_str_def lower_eval)
  show ?thesis
    using formatUserRole_case_insensitive [of "''PROXY_ADMIN''"] low adm by simp
qed

section \<open>Properties of the page router\<close>

text \<open>
  C7: when the URL has no \<^verbatim>\<open>page\<close> parameter, the page state of the first render is
  \<^verbatim>\<open>api-keys\<close>.
\<close>

theorem initial_page_default:
  "usp_get ''page'' q = None \<Longrightarrow> page (initial_state q hdr) = ''api-keys''"
  by (simp add: initial_state_def initial_page_def)

theorem initial_page_default_witness:
  "usp_get ''page'' [(''userID'', ''u1'')] = None
   \<and> page (initial_state [(''userID'', ''u1'')] ''Authorization'') = ''api-keys''"
proof -
  have h: "usp_get ''page'' [(''userID'', ''u1'')] = None"
    by (simp add: usp_get_def)
  show ?thesis using h initial_page_default [OF h, of "''Authorization''"] by simp
qed

text \<open>
  C4: a call of the page-update function with any string \<open>x\<close> goes through: the \<^verbatim>\<open>page\<close>
  parameter of the URL and the page state become \<open>x\<close>, and the next render shows the panel
  with identifier \<open>x\<close>, or the usage panel when \<open>x\<close> is not a known identifier. The call
  comes from the sidebar, so it starts in a state that renders the sidebar.
\<close>

theorem updatePage_selects_panel:
  assumes "render s = DashboardView p"
  shows "\<exists>s'. sidebar_setPage x s = Some s'
          \<and> usp_get ''page'' (searchParams s') = Some x
          \<and> page s' = x
          \<and> render s' = DashboardView (panel_for x)"
proof -
  from assms have inv: "\<not> truthy (invitation_id s)"
    by (auto simp: render_def split: if_splits)
  have "invitation_id (updatePage x s) = invitation_id s"
    by (simp add: updatePage_def invitation_id_def usp_get_set_other)
  with inv have "render (updatePage x s) = DashboardView (panel_for x)"
    by (simp add: render_def select_panel_table updatePage_def)
  moreover have "usp_get ''page'' (searchParams (updatePage x s)) = Some x"
    by (simp add: updatePage_def usp_get_set_same)
  moreover have "page (updatePage x s) = x"
    by (simp add: updatePage_def)
  moreover from assms have "sidebar_setPage x s = Some (updatePage x s)"
    by (simp add: sidebar_setPage_def)
  ultimately show ?thesis by simp
qed

theorem updatePage_selects_panel_witness:
  "render (initial_state [(''userID'', ''u1'')] ''Authorization'') = DashboardView UserDashboard
   \<and> (\<exists>s'. sidebar_setPage ''models'' (initial_state [(''userID'', ''u1'')] ''Authorization'')
            = Some s'
          \<and> usp_get ''page'' (searchParams s') = Some ''models''
          \<and> render s' = DashboardView ModelDashboard)
   \<and> (\<exists>s'. sidebar_setPage ''no-such-page''
              (initial_state [(''userID'', ''u1'')] ''Authorization'') = Some s'
          \<and> usp_get ''page'' (searchParams s') = Some ''no-such-page''
          \<and> render s' = DashboardView Usage)"
proof -
  have r: "render (initial_state [(''userID'', ''u1'')] ''Authorization'')
      = DashboardView UserDashboard"
    by (simp add: render_def initial_state_def initial_page_def invitation_id_def usp_get_def
          truthy_def select_panel_def)
  have p1: "panel_for ''models'' = ModelDashboard"
    by (simp add: panel_for_def page_table_def)
  have p2: "panel_for ''no-such-page'' = Usage"
    by (simp add: panel_for_def page_table_def)
  show ?thesis
    using r updatePage_selects_panel [OF r, of "''models''"]
      updatePage_selects_panel [OF r, of "''no-such-page''"] p1 p2
    by auto
qed

text \<open>
  C5: after \<^verbatim>\<open>updatePage("models")\<close>, a reload, which derives the initial page state from
  the URL the call left behind, starts at \<^verbatim>\<open>models\<close>.
\<close>

theorem updatePage_models_roundtrip:
  "page (initial_state (searchParams (updatePage ''models'' s)) hdr) = ''models''"
  by (simp add: initial_state_def initial_page_def updatePage_def usp_get_set_same
        truthy_str_def)

theorem updatePage_models_roundtrip_witness:
  "page (initial_state (searchParams (updatePage ''models''
      (initial_state [(''userID'', ''u1''), (''page'', ''teams'')] ''Authorization'')))
      ''Authorization'') = ''models''"
  using updatePage_models_roundtrip
    [of "initial_state [(''userID'', ''u1''), (''page'', ''teams'')] ''Authorization''"
        "''Authorization''"]
  by simp

text \<open>
  C8: \<^verbatim>\<open>updatePage\<close> rewrites the \<^verbatim>\<open>page\<close> parameter alone. The pairs of the query under
  every other name stay as they were, in their order; so every other parameter reads as
  before, \<^verbatim>\<open>userID\<close> and \<^verbatim>\<open>invitation_id\<close> among them.
\<close>

theorem updatePage_frame:
  "filter (\<lambda>q. fst q \<noteq> ''page'') (searchParams (updatePage x s))
     = filter (\<lambda>q. fst q \<noteq> ''page'') (searchParams s)
   \<and> (name \<noteq> ''page'' \<longrightarrow>
        usp_get name (searchParams (updatePage x s)) = usp_get name (searchParams s))
   \<and> userID (updatePage x s) = userID s
   \<and> invitation_id (updatePage x s) = invitation_id s"
  by (simp add: updatePage_def filter_usp_set usp_get_set_other userID_def invitation_id_def)

theorem updatePage_frame_witness:
  "usp_get ''userID'' (searchParams (updatePage ''models''
      (initial_state [(''userID'', ''u1''), (''page'', ''teams''), (''invitation_id'', ''inv7'')]
         ''Authorization''))) = Some ''u1''
   \<and> usp_get ''invitation_id'' (searchParams (updatePage ''models''
      (initial_state [(''userID'', ''u1''), (''page'', ''teams''), (''invitation_id'', ''inv7'')]
         ''Authorization''))) = Some ''inv7''"
  using
    updatePage_frame [of "''models''"
      "initial_state [(''userID'', ''u1''), (''page'', ''teams''), (''invitation_id'', ''inv7'')]
         ''Authorization''" "''userID''"]
    updatePage_frame [of "''models''"
      "initial_state [(''userID'', ''u1''), (''page'', ''teams''), (''invitation_id'', ''inv7'')]
         ''Authorization''" "''invitation_id''"]
  by (simp add: initial_state_def usp_get_def)

end
